theory Spec2Isabelle
  imports Complex_Main "HOL-Library.AList"
begin

section \<open>Python values and builtins used by the client\<close>

text \<open>
  The client (\<^verbatim>\<open>src/aevo.py\<close>, class \<^verbatim>\<open>AevoClient\<close>) receives JSON text, decodes it with
  \<^verbatim>\<open>json.loads\<close> and works on the decoded Python values. A decoded value is a \<open>json\<close>;
  Python's \<^verbatim>\<open>None\<close> is \<open>JNull\<close>, a \<^verbatim>\<open>dict\<close> is an association list in insertion order.
  A Python \<^verbatim>\<open>float\<close> is modelled by the rational it denotes: the arithmetic of the model is
  exact, \<^verbatim>\<open>nan\<close> and the infinities are not values of the model.
\<close>

datatype json =
    JNull
  | JBool bool
  | JInt int
  | JFloat rat
  | JStr string
  | JArr "json list"
  | JObj "(string \<times> json) list"

text \<open>The exceptions (all subclasses of Python's \<^verbatim>\<open>Exception\<close>) that the modelled code can meet.\<close>

datatype exn =
    ConnectionClosedError
  | ConnectionClosedOK
  | TimeoutError
  | JSONDecodeError
  | ValueError
  | TypeError
  | AttributeError
  | OSError

text \<open>Truth value of an object, as \<^verbatim>\<open>if x\<close>, \<^verbatim>\<open>not x\<close> and \<^verbatim>\<open>all([...])\<close> test it.\<close>

fun truthy :: "json \<Rightarrow> bool" where
  "truthy JNull = False"
| "truthy (JBool b) = b"
| "truthy (JInt i) = (i \<noteq> 0)"
| "truthy (JFloat r) = (r \<noteq> 0)"
| "truthy (JStr s) = (s \<noteq> [])"
| "truthy (JArr xs) = (xs \<noteq> [])"
| "truthy (JObj kvs) = (kvs \<noteq> [])"

text \<open>\<^verbatim>\<open>x.get(key, default)\<close>: only a dict has the method.\<close>

fun py_get :: "json \<Rightarrow> string \<Rightarrow> json \<Rightarrow> exn + json" where
  "py_get (JObj kvs) k d = Inr (case map_of kvs k of None \<Rightarrow> d | Some v \<Rightarrow> v)"
| "py_get _ k d = Inl AttributeError"

text \<open>\<^verbatim>\<open>int(x)\<close> of a float truncates toward zero.\<close>

definition py_trunc :: "rat \<Rightarrow> int" where
  "py_trunc x = (if 0 \<le> x then \<lfloor>x\<rfloor> else \<lceil>x\<rceil>)"

text \<open>
  \<^verbatim>\<open>round(x, ndigits)\<close> of a float rounds to a multiple of \<open>10 ^ (- ndigits)\<close>, a tie going
  to the even multiple; the result is again a float.
\<close>

definition round_half_even :: "rat \<Rightarrow> int" where
  "round_half_even x =
     (let f = \<lfloor>x\<rfloor>; d = x - of_int f
      in if d < 1 / 2 then f else if 1 / 2 < d then f + 1 else if even f then f else f + 1)"

definition py_round :: "rat \<Rightarrow> int \<Rightarrow> rat" where
  "py_round x ndigits =
     (if 0 \<le> ndigits
      then of_int (round_half_even (x * 10 ^ nat ndigits)) / 10 ^ nat ndigits
      else of_int (round_half_even (x / 10 ^ nat (- ndigits))) * 10 ^ nat (- ndigits))"

text \<open>A \<^verbatim>\<open>bool\<close> used as an integer, as in \<^verbatim>\<open>round(x, is_buy)\<close>.\<close>

definition int_of_bool :: "bool \<Rightarrow> int" where
  "int_of_bool b = (if b then 1 else 0)"

text \<open>\<^verbatim>\<open>str.lower()\<close> on the ASCII letters; every other byte is kept.\<close>

definition lower_char :: "char \<Rightarrow> char" where
  "lower_char c =
     (let n = of_char c :: nat in if 65 \<le> n \<and> n \<le> 90 then char_of (n + 32) else c)"

definition py_lower :: "string \<Rightarrow> string" where
  "py_lower s = map lower_char s"

text \<open>\<^verbatim>\<open>s.startswith(p)\<close> and the last piece of \<^verbatim>\<open>s.split(':')\<close>.\<close>

definition startswith :: "string \<Rightarrow> string \<Rightarrow> bool" where
  "startswith s p = (take (length p) s = p)"

definition last_segment :: "string \<Rightarrow> string" where
  "last_segment s = rev (takeWhile (\<lambda>c. c \<noteq> CHR '':'') (rev s))"

text \<open>\<^verbatim>\<open>str(n)\<close> of an integer.\<close>

definition digit_char :: "nat \<Rightarrow> char" where
  "digit_char d = char_of (48 + d)"

function str_nat :: "nat \<Rightarrow> string" where
  "str_nat n = (if n < 10 then [digit_char n] else str_nat (n div 10) @ [digit_char (n mod 10)])"
  by pat_completeness auto
termination
  by (relation "measure id") auto

definition str_int :: "int \<Rightarrow> string" where
  "str_int i = (if i < 0 then CHR ''-'' # str_nat (nat (- i)) else str_nat (nat i))"

text \<open>\<^verbatim>\<open>bytes.hex()\<close>: two lower-case hexadecimal digits per byte.\<close>

type_synonym bytes = "nat list"

definition hex_digit :: "nat \<Rightarrow> char" where
  "hex_digit d = (if d < 10 then char_of (48 + d) else char_of (87 + d))"

definition bytes_hex :: "bytes \<Rightarrow> string" where
  "bytes_hex bs = concat (map (\<lambda>b. [hex_digit ((b mod 256) div 16), hex_digit (b mod 16)]) bs)"

section \<open>Library functions taken as parameters\<close>

text \<open>
  The decoders and the cryptography are library code (\<^verbatim>\<open>json\<close>, the \<^verbatim>\<open>float\<close> and \<^verbatim>\<open>int\<close>
  constructors on strings, \<^verbatim>\<open>eip712_structs\<close>, \<^verbatim>\<open>eth_hash\<close>, \<^verbatim>\<open>eth_account\<close>). They are
  parameters of the model: \<open>json_loads\<close> is \<^verbatim>\<open>json.loads\<close> (\<open>None\<close> when it raises
  \<^verbatim>\<open>JSONDecodeError\<close>), \<open>str_to_float\<close> and \<open>str_to_int\<close> are \<^verbatim>\<open>float(s)\<close> and \<^verbatim>\<open>int(s)\<close> on a
  string (\<open>None\<close> when they raise \<^verbatim>\<open>ValueError\<close>), \<open>signable_bytes\<close> is
  \<^verbatim>\<open>Order(...).signable_bytes(domain=make_domain(...))\<close>, \<open>keccak\<close> is the hash, and
  \<open>sign_hash h key\<close> is \<^verbatim>\<open>Account._sign_hash(h, key).signature.hex()\<close>.
\<close>

record signing_domain =
  name :: string
  version :: string
  chainId :: string

record order_struct =
  maker :: string
  isBuy :: bool
  limitPrice :: int
  amount :: int
  salt :: int
  instrument :: int
  timestamp :: int

record lib =
  json_loads :: "string \<Rightarrow> json option"
  str_to_float :: "string \<Rightarrow> rat option"
  str_to_int :: "string \<Rightarrow> int option"
  signable_bytes :: "order_struct \<Rightarrow> signing_domain \<Rightarrow> exn + bytes"
  keccak :: "bytes \<Rightarrow> bytes"
  sign_hash :: "bytes \<Rightarrow> string \<Rightarrow> exn + string"

text \<open>\<^verbatim>\<open>float(x)\<close> and \<^verbatim>\<open>int(x)\<close> on a decoded value.\<close>

fun py_float :: "lib \<Rightarrow> json \<Rightarrow> exn + rat" where
  "py_float L (JBool b) = Inr (if b then 1 else 0)"
| "py_float L (JInt i) = Inr (of_int i)"
| "py_float L (JFloat r) = Inr r"
| "py_float L (JStr s) = (case str_to_float L s of None \<Rightarrow> Inl ValueError | Some r \<Rightarrow> Inr r)"
| "py_float L _ = Inl TypeError"

fun py_int :: "lib \<Rightarrow> json \<Rightarrow> exn + int" where
  "py_int L (JBool b) = Inr (if b then 1 else 0)"
| "py_int L (JInt i) = Inr i"
| "py_int L (JFloat r) = Inr (py_trunc r)"
| "py_int L (JStr s) = (case str_to_int L s of None \<Rightarrow> Inl ValueError | Some i \<Rightarrow> Inr i)"
| "py_int L _ = Inl TypeError"

text \<open>\<^verbatim>\<open>x.lower()\<close>: only a string has the method.\<close>

fun py_str_lower :: "json \<Rightarrow> exn + string" where
  "py_str_lower (JStr s) = Inr (py_lower s)"
| "py_str_lower _ = Inl AttributeError"

section \<open>Configuration\<close>

datatype network = Testnet | Mainnet

fun ws_url :: "network \<Rightarrow> string" where
  "ws_url Testnet = ''wss://ws-testnet.aevo.xyz''"
| "ws_url Mainnet = ''wss://ws.aevo.xyz''"

fun config_signing_domain :: "network \<Rightarrow> signing_domain" where
  "config_signing_domain Testnet =
     \<lparr>name = ''Aevo Testnet'', version = ''1'', chainId = ''11155111''\<rparr>"
| "config_signing_domain Mainnet =
     \<lparr>name = ''Aevo Mainnet'', version = ''1'', chainId = ''1''\<rparr>"

section \<open>The client, the transport and the trace\<close>

text \<open>
  A connection object is a handle. What the program does to the outside is recorded, in
  order, as a list of events: transport calls with their outcome, sleeps, file writes and
  log lines (one constructor of \<open>logmsg\<close> per \<^verbatim>\<open>logger\<close> call of the source).
\<close>

type_synonym handle = nat

datatype level = Debug | Info | Error

datatype logmsg =
    OpeningConnection
  | ConnectedTo string
  | ConnectionEstablished
  | OpenFailed
  | ExceptionText exn
  | Traceback exn
  | Authenticating
  | ReconnectAttempt
  | ReconnectFailed exn
  | Resubscribed string
  | ClosingConnection
  | CloseError exn
  | NoActiveConnection
  | Restarted
  | NotEstablished
  | NoNewFills
  | ClosedReconnecting
  | JsonDecodeFailed
  | HandlerFailed exn
  | MissingFill
  | FillRecord json
  | MissingFields
  | ConversionFailed
  | OppositeOrderCreated string
  | OppositeOrderFailed exn
  | OrderUpdate json
  | TickerConfirmed string
  | TickerRefused string json
  | TickerConfirmTimeout string
  | OrdersRequested
  | FillsRequested
  | Payload json
  | SigningDomain signing_domain

datatype event =
    Connected handle
  | ConnectFailed exn
  | Closed handle
  | CloseFailed handle exn
  | Sent handle json
  | SendFailed handle json exn
  | Slept nat
  | Saved string "json list"
  | SaveFailed string exn
  | Logged level logmsg

text \<open>
  The attributes of \<^verbatim>\<open>AevoClient\<close> set by \<^verbatim>\<open>__init__\<close>, and the state of the world around
  it. \<open>script\<close> holds the outcomes of the coming transport and file operations, in the order
  the program performs them (\<open>None\<close>: the call succeeds; an exhausted script: every further
  call succeeds); \<open>inbox\<close> holds what the coming \<^verbatim>\<open>recv\<close> calls meet (a text frame or an
  exception; an exhausted inbox: the bounded wait times out); \<open>closed_handles\<close> gives, for a
  closed connection, the exception that using it raises; \<open>salts\<close> holds the coming draws of
  \<^verbatim>\<open>random.randint\<close> and \<open>clock\<close> is \<^verbatim>\<open>int(time.time())\<close>.
\<close>

record client =
  signing_key :: string
  wallet_address :: string
  api_key :: string
  api_secret :: string
  env :: network
  connection :: "handle option"
  orders :: "json list"
  tickers :: "(string \<times> json) list"
  latest_tickers :: "json list"
  subscribed_channels :: "string list"

record state = client +
  script :: "exn option list"
  inbox :: "(exn + string) list"
  closed_handles :: "(handle \<times> exn) list"
  fresh :: handle
  salts :: "int list"
  clock :: int
  trace :: "event list"

text \<open>
  A method is a function from the state to a result and the state it leaves: \<open>Inl e\<close>
  when it raises \<open>e\<close>, \<open>Inr v\<close> when it returns \<open>v\<close>. What it changed before raising stays changed.
\<close>

type_synonym 'a prog = "state \<Rightarrow> (exn + 'a) \<times> state"

definition ret :: "'a \<Rightarrow> 'a prog" where
  "ret v s = (Inr v, s)"

definition raise :: "exn \<Rightarrow> 'a prog" where
  "raise e s = (Inl e, s)"

definition pbind :: "'a prog \<Rightarrow> ('a \<Rightarrow> 'b prog) \<Rightarrow> 'b prog" where
  "pbind m k s = (case m s of (Inl e, s') \<Rightarrow> (Inl e, s') | (Inr v, s') \<Rightarrow> k v s')"

definition pthen :: "'a prog \<Rightarrow> 'b prog \<Rightarrow> 'b prog" where
  "pthen m k = pbind m (\<lambda>_. k)"

text \<open>\<^verbatim>\<open>try: m  except ... as e: h e\<close> and \<^verbatim>\<open>try: m  finally: f\<close>.\<close>

definition try_except :: "'a prog \<Rightarrow> (exn \<Rightarrow> 'a prog) \<Rightarrow> 'a prog" where
  "try_except m h s = (case m s of (Inl e, s') \<Rightarrow> h e s' | (Inr v, s') \<Rightarrow> (Inr v, s'))"

definition try_finally :: "'a prog \<Rightarrow> unit prog \<Rightarrow> 'a prog" where
  "try_finally m f s =
     (case m s of (r, s') \<Rightarrow> (case f s' of (Inl e, s'') \<Rightarrow> (Inl e, s'') | (Inr _, s'') \<Rightarrow> (r, s'')))"

definition lift :: "exn + 'a \<Rightarrow> 'a prog" where
  "lift r s = (r, s)"

text \<open>Reading an attribute, and assigning to attributes.\<close>

definition gets :: "(state \<Rightarrow> 'a) \<Rightarrow> 'a prog" where
  "gets f s = (Inr (f s), s)"

definition modify :: "(state \<Rightarrow> state) \<Rightarrow> unit prog" where
  "modify f s = (Inr (), f s)"

definition emit :: "event \<Rightarrow> unit prog" where
  "emit ev s = (Inr (), s\<lparr>trace := trace s @ [ev]\<rparr>)"

definition logger :: "level \<Rightarrow> logmsg \<Rightarrow> unit prog" where
  "logger lv m = emit (Logged lv m)"

definition sleep :: "nat \<Rightarrow> unit prog" where
  "sleep n s = (Inr (), s\<lparr>clock := clock s + int n, trace := trace s @ [Slept n]\<rparr>)"

definition set_connection :: "handle option \<Rightarrow> unit prog" where
  "set_connection c s = (Inr (), s\<lparr>connection := c\<rparr>)"

subsection \<open>The transport\<close>

definition pop_outcome :: "state \<Rightarrow> exn option \<times> state" where
  "pop_outcome s = (case script s of [] \<Rightarrow> (None, s) | r # rs \<Rightarrow> (r, s\<lparr>script := rs\<rparr>))"

definition closing :: "exn \<Rightarrow> bool" where
  "closing e = (e = ConnectionClosedError \<or> e = ConnectionClosedOK)"

definition mark_closed :: "handle \<Rightarrow> exn \<Rightarrow> state \<Rightarrow> state" where
  "mark_closed h e s = s\<lparr>closed_handles := (h, e) # closed_handles s\<rparr>"

text \<open>\<^verbatim>\<open>connection.closed\<close>.\<close>

definition is_closed :: "handle \<Rightarrow> state \<Rightarrow> bool" where
  "is_closed h s = (map_of (closed_handles s) h \<noteq> None)"

text \<open>\<^verbatim>\<open>websockets.connect(...)\<close>: a new handle, or an exception.\<close>

definition ws_connect :: "handle prog" where
  "ws_connect s =
     (case pop_outcome s of
        (Some e, s1) \<Rightarrow> (Inl e, s1\<lparr>trace := trace s1 @ [ConnectFailed e]\<rparr>)
      | (None, s1) \<Rightarrow>
          (Inr (fresh s1), s1\<lparr>fresh := Suc (fresh s1), trace := trace s1 @ [Connected (fresh s1)]\<rparr>))"

text \<open>
  \<^verbatim>\<open>h.send(data)\<close>: a closed connection raises; on an open one the transport decides, and a
  closed-connection error leaves the connection closed.
\<close>

definition conn_send :: "handle \<Rightarrow> json \<Rightarrow> unit prog" where
  "conn_send h d s =
     (case map_of (closed_handles s) h of
        Some e \<Rightarrow> (Inl e, s\<lparr>trace := trace s @ [SendFailed h d e]\<rparr>)
      | None \<Rightarrow>
         (case pop_outcome s of
            (None, s1) \<Rightarrow> (Inr (), s1\<lparr>trace := trace s1 @ [Sent h d]\<rparr>)
          | (Some e, s1) \<Rightarrow>
              (Inl e, (if closing e then mark_closed h e s1 else s1)
                         \<lparr>trace := trace s1 @ [SendFailed h d e]\<rparr>)))"

text \<open>\<^verbatim>\<open>h.close()\<close>: closing a closed connection does nothing.\<close>

definition conn_close :: "handle \<Rightarrow> unit prog" where
  "conn_close h s =
     (case map_of (closed_handles s) h of
        Some e \<Rightarrow> (Inr (), s)
      | None \<Rightarrow>
         (case pop_outcome s of
            (None, s1) \<Rightarrow> (Inr (), (mark_closed h ConnectionClosedOK s1)\<lparr>trace := trace s1 @ [Closed h]\<rparr>)
          | (Some e, s1) \<Rightarrow> (Inl e, s1\<lparr>trace := trace s1 @ [CloseFailed h e]\<rparr>)))"

text \<open>\<^verbatim>\<open>asyncio.wait_for(h.recv(), timeout=...)\<close>.\<close>

definition conn_recv :: "handle \<Rightarrow> string prog" where
  "conn_recv h s =
     (case map_of (closed_handles s) h of
        Some e \<Rightarrow> (Inl e, s)
      | None \<Rightarrow>
         (case inbox s of
            [] \<Rightarrow> (Inl TimeoutError, s)
          | Inr text # rest \<Rightarrow> (Inr text, s\<lparr>inbox := rest\<rparr>)
          | Inl e # rest \<Rightarrow> (Inl e, (if closing e then mark_closed h e s else s)\<lparr>inbox := rest\<rparr>)))"

text \<open>\<^verbatim>\<open>self.connection.send(...)\<close> and \<^verbatim>\<open>self.connection.recv()\<close>: \<^verbatim>\<open>None\<close> has neither method.\<close>

definition connection_send :: "json \<Rightarrow> unit prog" where
  "connection_send d s =
     (case connection s of None \<Rightarrow> (Inl AttributeError, s) | Some h \<Rightarrow> conn_send h d s)"

definition connection_recv :: "string prog" where
  "connection_recv s =
     (case connection s of None \<Rightarrow> (Inl AttributeError, s) | Some h \<Rightarrow> conn_recv h s)"

text \<open>\<^verbatim>\<open>save_to_file(data, filename)\<close>: creates the directory and pickles the data.\<close>

definition save_to_file :: "json list \<Rightarrow> string \<Rightarrow> unit prog" where
  "save_to_file data filename s =
     (case pop_outcome s of
        (None, s1) \<Rightarrow> (Inr (), s1\<lparr>trace := trace s1 @ [Saved filename data]\<rparr>)
      | (Some e, s1) \<Rightarrow> (Inl e, s1\<lparr>trace := trace s1 @ [SaveFailed filename e]\<rparr>))"

section \<open>Connection management\<close>

definition auth_frame :: "string \<Rightarrow> string \<Rightarrow> json" where
  "auth_frame key secret =
     JObj [(''id'', JInt 1), (''op'', JStr ''auth''),
           (''data'', JObj [(''key'', JStr key), (''secret'', JStr secret)])]"

definition subscribe_frame :: "string \<Rightarrow> json" where
  "subscribe_frame channel = JObj [(''op'', JStr ''subscribe''), (''data'', JArr [JStr channel])]"

definition authenticate :: "unit prog" where
  "authenticate =
     pthen (logger Debug Authenticating)
    (pthen (pbind (gets (\<lambda>s. auth_frame (api_key s) (api_secret s))) connection_send)
           (sleep 1))"

text \<open>The \<^verbatim>\<open>try\<close> block of \<^verbatim>\<open>open_connection\<close>, and its \<^verbatim>\<open>except Exception\<close> clause.\<close>

definition open_connection_try :: "unit prog" where
  "open_connection_try =
     pthen (logger Info OpeningConnection)
    (pthen (pbind (gets connection) (\<lambda>c. case c of None \<Rightarrow> ret () | Some h \<Rightarrow> conn_close h))
    (pbind ws_connect (\<lambda>h.
     pthen (set_connection (Some h))
    (pthen (pbind (gets env) (\<lambda>e. logger Debug (ConnectedTo (ws_url e))))
    (pthen (pbind (gets (\<lambda>s. api_key s \<noteq> [] \<and> wallet_address s \<noteq> []))
              (\<lambda>credentials. if credentials then authenticate else ret ()))
           (logger Info ConnectionEstablished))))))"

definition open_connection_except :: "exn \<Rightarrow> unit prog" where
  "open_connection_except e =
     pthen (logger Error OpenFailed)
    (pthen (logger Error (ExceptionText e))
    (pthen (logger Error (Traceback e))
           (sleep 10)))"

definition open_connection :: "unit prog" where
  "open_connection = try_except open_connection_try open_connection_except"

definition close_connection :: "unit prog" where
  "close_connection =
     pbind (gets connection) (\<lambda>c.
       case c of
         Some h \<Rightarrow>
           pbind (gets (is_closed h)) (\<lambda>closed.
             if \<not> closed
             then pthen (logger Info ClosingConnection)
                    (try_finally
                       (try_except (conn_close h) (\<lambda>e. logger Error (CloseError e)))
                       (set_connection None))
             else logger Info NoActiveConnection)
       | None \<Rightarrow> logger Info NoActiveConnection)"

fun resubscribe_loop :: "string list \<Rightarrow> unit prog" where
  "resubscribe_loop [] = ret ()"
| "resubscribe_loop (channel # rest) =
     pthen (connection_send (subscribe_frame channel))
    (pthen (logger Info (Resubscribed channel))
           (resubscribe_loop rest))"

definition resubscribe_channels :: "unit prog" where
  "resubscribe_channels = pbind (gets subscribed_channels) resubscribe_loop"

definition reconnect :: "unit prog" where
  "reconnect =
     pthen (logger Info ReconnectAttempt)
    (pthen close_connection
    (pthen (sleep 5)
           (try_except (pthen open_connection resubscribe_channels)
                       (\<lambda>e. logger Error (ReconnectFailed e)))))"

definition send :: "json \<Rightarrow> unit prog" where
  "send data =
     pbind (gets connection) (\<lambda>c.
       case c of
         Some h \<Rightarrow>
           try_except (conn_send h data)
             (\<lambda>e. if e = ConnectionClosedError
                  then pthen (logger Debug Restarted) (pthen reconnect (connection_send data))
                  else reconnect)
       | None \<Rightarrow> pthen (logger Error NotEstablished) reconnect)"

section \<open>Subscriptions\<close>

text \<open>\<^verbatim>\<open>'id' in x\<close> on a decoded value.\<close>

fun contains :: "string \<Rightarrow> string \<Rightarrow> bool" where
  "contains [] p = (p = [])"
| "contains (c # cs) p = (startswith (c # cs) p \<or> contains cs p)"

fun py_in :: "string \<Rightarrow> json \<Rightarrow> exn + bool" where
  "py_in k (JObj kvs) = Inr (map_of kvs k \<noteq> None)"
| "py_in k (JArr xs) = Inr (JStr k \<in> set xs)"
| "py_in k (JStr s) = Inr (contains s k)"
| "py_in k _ = Inl TypeError"

definition json_decode :: "lib \<Rightarrow> string \<Rightarrow> json prog" where
  "json_decode L text =
     (case json_loads L text of None \<Rightarrow> raise JSONDecodeError | Some v \<Rightarrow> ret v)"

definition confirmed :: "json \<Rightarrow> bool prog" where
  "confirmed m =
     pbind (lift (py_in ''id'' m)) (\<lambda>has_id.
       if has_id
       then pbind (lift (py_get m ''data'' (JObj []))) (\<lambda>d.
            pbind (lift (py_get d ''success'' JNull)) (\<lambda>ok. ret (truthy ok)))
       else ret False)"

definition register :: "string \<Rightarrow> unit prog" where
  "register channel = modify (\<lambda>s. s\<lparr>subscribed_channels := subscribed_channels s @ [channel]\<rparr>)"

definition subscribe_ticker :: "lib \<Rightarrow> string \<Rightarrow> unit prog" where
  "subscribe_ticker L asset =
     (let channel_name = ''ticker:'' @ asset in
      pthen (connection_send (subscribe_frame channel_name))
     (pthen (register channel_name)
            (try_except
               (pbind connection_recv (\<lambda>confirmation.
                pbind (json_decode L confirmation) (\<lambda>confirmation_message.
                pbind (confirmed confirmation_message) (\<lambda>ok.
                  if ok then logger Info (TickerConfirmed channel_name)
                  else logger Error (TickerRefused channel_name confirmation_message)))))
               (\<lambda>e. if e = TimeoutError then logger Error (TickerConfirmTimeout channel_name)
                    else raise e))))"

definition subscribe_orders :: "unit prog" where
  "subscribe_orders =
     pthen (connection_send (subscribe_frame ''orders''))
    (pthen (register ''orders'')
           (logger Info OrdersRequested))"

definition subscribe_fills :: "unit prog" where
  "subscribe_fills =
     pthen (connection_send (subscribe_frame ''fills''))
    (pthen (register ''fills'')
           (logger Info FillsRequested))"

section \<open>Signing and submitting orders\<close>

text \<open>
  The expression \<^verbatim>\<open>int(round(value * decimals, is_buy))\<close>, which \<^verbatim>\<open>sign_order\<close> and
  \<^verbatim>\<open>create_order_ws_json\<close> apply to the limit price and to the quantity. \<open>decimals\<close> is the
  multiplier itself (\<^verbatim>\<open>10**6\<close> by default), and the order's side is passed as the number
  of digits to round to. The product is taken exactly (in the source it is one
  floating-point multiplication).
\<close>

definition fixed_point :: "rat \<Rightarrow> int \<Rightarrow> bool \<Rightarrow> int" where
  "fixed_point v decimals is_buy = py_trunc (py_round (v * of_int decimals) (int_of_bool is_buy))"


definition randint :: "int prog" where
  "randint s = (case salts s of [] \<Rightarrow> (Inr 0, s) | x # xs \<Rightarrow> (Inr x, s\<lparr>salts := xs\<rparr>))"

definition make_order :: "string \<Rightarrow> int \<Rightarrow> bool \<Rightarrow> rat \<Rightarrow> rat \<Rightarrow> int \<Rightarrow> int \<Rightarrow> int \<Rightarrow> int \<Rightarrow> order_struct" where
  "make_order wallet instrument_id is_buy limit_price quantity ts price_decimals amount_decimals slt =
     \<lparr>maker = wallet,
      isBuy = is_buy,
      limitPrice = fixed_point limit_price price_decimals is_buy,
      amount = fixed_point quantity amount_decimals is_buy,
      salt = slt,
      instrument = instrument_id,
      timestamp = ts\<rparr>"

text \<open>The hash that \<^verbatim>\<open>sign_order\<close> calls \<^verbatim>\<open>signable_bytes\<close>.\<close>

definition order_hash :: "lib \<Rightarrow> order_struct \<Rightarrow> signing_domain \<Rightarrow> exn + bytes" where
  "order_hash L order_struct domain =
     (case signable_bytes L order_struct domain of Inl e \<Rightarrow> Inl e | Inr b \<Rightarrow> Inr (keccak L b))"

definition sign_order ::
  "lib \<Rightarrow> int \<Rightarrow> bool \<Rightarrow> rat \<Rightarrow> rat \<Rightarrow> int \<Rightarrow> int \<Rightarrow> int \<Rightarrow> (int \<times> string \<times> string) prog" where
  "sign_order L instrument_id is_buy limit_price quantity ts price_decimals amount_decimals =
     pbind randint (\<lambda>slt.
     pbind (gets wallet_address) (\<lambda>wallet.
     pbind (gets (\<lambda>s. config_signing_domain (env s))) (\<lambda>domain.
     pbind (gets signing_key) (\<lambda>key.
       (let order_struct = make_order wallet instrument_id is_buy limit_price quantity ts
                             price_decimals amount_decimals slt
        in pthen (logger Info (SigningDomain domain))
          (pbind (lift (order_hash L order_struct domain)) (\<lambda>h.
           pbind (lift (sign_hash L h key)) (\<lambda>signature.
             ret (slt, signature, ''0x'' @ bytes_hex h)))))))))"

definition create_order_ws_json ::
  "lib \<Rightarrow> int \<Rightarrow> bool \<Rightarrow> rat \<Rightarrow> rat \<Rightarrow> bool \<Rightarrow> bool \<Rightarrow> int \<Rightarrow> int \<Rightarrow> (json \<times> string) prog" where
  "create_order_ws_json L instrument_id is_buy limit_price quantity post_only mmp
       price_decimals amount_decimals =
     pbind (gets clock) (\<lambda>ts.
     pbind (sign_order L instrument_id is_buy limit_price quantity ts price_decimals (10 ^ 6))
       (\<lambda>(slt, signature, order_id).
     pbind (gets wallet_address) (\<lambda>wallet.
          ret (JObj [(''instrument'', JInt instrument_id),
                     (''maker'', JStr wallet),
                     (''is_buy'', JBool is_buy),
                     (''amount'', JStr (str_int (fixed_point quantity amount_decimals is_buy))),
                     (''limit_price'', JStr (str_int (fixed_point limit_price price_decimals is_buy))),
                     (''salt'', JStr (str_int slt)),
                     (''signature'', JStr signature),
                     (''post_only'', JBool post_only),
                     (''mmp'', JBool mmp),
                     (''timestamp'', JInt ts)], order_id))))"

text \<open>
  \<^verbatim>\<open>create_order\<close>; \<open>ident\<close> is the optional \<^verbatim>\<open>id\<close> argument (\<open>JNull\<close> for \<^verbatim>\<open>None\<close>). The
  instrument id reaches it as an integer, on which its \<^verbatim>\<open>int(instrument_id)\<close> is the identity.
\<close>

definition create_order_frame :: "json \<Rightarrow> json \<Rightarrow> json" where
  "create_order_frame data ident =
     JObj ([(''op'', JStr ''create_order''), (''data'', data)]
           @ (if truthy ident then [(''id'', ident)] else []))"

definition create_order ::
  "lib \<Rightarrow> int \<Rightarrow> bool \<Rightarrow> rat \<Rightarrow> rat \<Rightarrow> bool \<Rightarrow> json \<Rightarrow> bool \<Rightarrow> string prog" where
  "create_order L instrument_id is_buy limit_price quantity post_only ident mmp =
     pbind (create_order_ws_json L instrument_id is_buy limit_price quantity post_only mmp
              (10 ^ 6) (10 ^ 6)) (\<lambda>(data, order_id).
     pthen (logger Info (Payload (create_order_frame data ident)))
    (pthen (send (create_order_frame data ident))
           (ret order_id)))"

section \<open>The grid reaction to a fill\<close>

definition calculate_opposite_price :: "rat \<Rightarrow> bool \<Rightarrow> int \<Rightarrow> int \<Rightarrow> rat" where
  "calculate_opposite_price filled_price is_buy grid_interval price_decimals =
     (let opposite_price =
            (if is_buy then filled_price - of_int grid_interval
             else filled_price + of_int grid_interval)
      in py_round opposite_price price_decimals)"

text \<open>The conversions of the \<^verbatim>\<open>try\<close> block of \<^verbatim>\<open>handle_fills_message\<close>, in its order.\<close>

definition convert_fill :: "lib \<Rightarrow> json \<Rightarrow> json \<Rightarrow> json \<Rightarrow> json \<Rightarrow> exn + (rat \<times> rat \<times> bool \<times> int)" where
  "convert_fill L price_str filled_str side instrument_id =
     (case py_float L price_str of Inl e \<Rightarrow> Inl e | Inr filled_price \<Rightarrow>
      case py_float L filled_str of Inl e \<Rightarrow> Inl e | Inr filled_quantity \<Rightarrow>
      case py_str_lower side of Inl e \<Rightarrow> Inl e | Inr lowered \<Rightarrow>
      case py_int L instrument_id of Inl e \<Rightarrow> Inl e | Inr iid \<Rightarrow>
        Inr (filled_price, filled_quantity, lowered = ''buy'', iid))"

text \<open>The last \<^verbatim>\<open>try\<close> block of \<^verbatim>\<open>handle_fills_message\<close>: the submission and its two log lines.\<close>

definition submit_opposite :: "lib \<Rightarrow> int \<Rightarrow> bool \<Rightarrow> rat \<Rightarrow> rat \<Rightarrow> unit prog" where
  "submit_opposite L instrument_id new_order_is_buy new_order_price filled_quantity =
     try_except
       (pbind (create_order L instrument_id new_order_is_buy new_order_price filled_quantity
                 True JNull True)
          (\<lambda>new_order_id. logger Info (OppositeOrderCreated new_order_id)))
       (\<lambda>e. logger Error (OppositeOrderFailed e))"

definition handle_fills_message :: "lib \<Rightarrow> json \<Rightarrow> int \<Rightarrow> int \<Rightarrow> unit prog" where
  "handle_fills_message L message grid_interval price_decimals =
     pbind (lift (py_get message ''data'' (JObj []))) (\<lambda>data.
     pbind (lift (py_get data ''fill'' JNull)) (\<lambda>fill_data.
       if \<not> truthy fill_data then logger Error MissingFill
       else
         pthen (logger Info (FillRecord fill_data))
        (pbind (lift (py_get fill_data ''order_id'' JNull)) (\<lambda>order_id.
         pbind (lift (py_get fill_data ''price'' JNull)) (\<lambda>price_str.
         pbind (lift (py_get fill_data ''filled'' JNull)) (\<lambda>filled_str.
         pbind (lift (py_get fill_data ''side'' JNull)) (\<lambda>side.
         pbind (lift (py_get fill_data ''instrument_id'' JNull)) (\<lambda>instrument_id.
           if \<not> list_all truthy [order_id, price_str, filled_str, side, instrument_id]
           then logger Error MissingFields
           else
             (case convert_fill L price_str filled_str side instrument_id of
                Inl e \<Rightarrow> if e = ValueError then logger Error ConversionFailed else raise e
              | Inr (filled_price, filled_quantity, is_buy, iid) \<Rightarrow>
                  (let new_order_is_buy = \<not> is_buy;
                       new_order_price = calculate_opposite_price filled_price new_order_is_buy
                                           grid_interval price_decimals
                   in submit_opposite L iid new_order_is_buy new_order_price
                        filled_quantity))))))))))"

section \<open>The message loop\<close>

text \<open>Iterating over a decoded value, as \<^verbatim>\<open>for order in orders_data\<close> does.\<close>

fun py_iter :: "json \<Rightarrow> exn + json list" where
  "py_iter (JArr xs) = Inr xs"
| "py_iter (JObj kvs) = Inr (map (\<lambda>kv. JStr (fst kv)) kvs)"
| "py_iter (JStr s) = Inr (map (\<lambda>c. JStr [c]) s)"
| "py_iter _ = Inl TypeError"

fun handle_order_loop :: "json list \<Rightarrow> unit prog" where
  "handle_order_loop [] = ret ()"
| "handle_order_loop (order # rest) =
     pthen (logger Info (OrderUpdate order))
    (pthen (modify (\<lambda>s. s\<lparr>orders := orders s @ [order]\<rparr>))
           (handle_order_loop rest))"

definition handle_order_message :: "json \<Rightarrow> unit prog" where
  "handle_order_message message =
     pbind (lift (py_get message ''data'' (JObj []))) (\<lambda>data.
     pbind (lift (py_get data ''orders'' (JArr []))) (\<lambda>orders_data.
     pbind (lift (py_iter orders_data)) (\<lambda>items.
     pthen (handle_order_loop items)
           (pbind (gets orders) (\<lambda>all_orders. save_to_file all_orders ''data/orders.pkl'')))))"

text \<open>\<^verbatim>\<open>deque(maxlen=100).append\<close>.\<close>

definition deque_append :: "json list \<Rightarrow> json \<Rightarrow> json list" where
  "deque_append q x = (let q' = q @ [x] in if 100 < length q' then tl q' else q')"

definition handle_ticker_message :: "string \<Rightarrow> json \<Rightarrow> unit prog" where
  "handle_ticker_message channel message =
     pbind (lift (py_get message ''data'' (JObj []))) (\<lambda>ticker_data.
       (let asset = last_segment channel in
        pthen (modify (\<lambda>s. s\<lparr>tickers := AList.update asset ticker_data (tickers s),
                                 latest_tickers := deque_append (latest_tickers s) ticker_data\<rparr>))
              (pbind (gets latest_tickers) (\<lambda>latest.
                 save_to_file latest (''data/'' @ asset @ ''_tickers.pkl'')))))"

text \<open>
  The \<^verbatim>\<open>if\<close>/\<^verbatim>\<open>elif\<close> chain of \<^verbatim>\<open>message_handler\<close> on the decoded message. A truthy channel
  that is not a string has no \<^verbatim>\<open>startswith\<close>.
\<close>

definition route :: "lib \<Rightarrow> int \<Rightarrow> int \<Rightarrow> json \<Rightarrow> unit prog" where
  "route L grid_interval price_decimals message =
     pbind (lift (py_get message ''channel'' JNull)) (\<lambda>channel.
       case channel of
         JStr c \<Rightarrow>
           if c \<noteq> [] \<and> startswith c ''ticker:'' then handle_ticker_message c message
           else if c = ''orders'' then handle_order_message message
           else if c = ''fills'' then handle_fills_message L message grid_interval price_decimals
           else ret ()
       | _ \<Rightarrow> if truthy channel then raise AttributeError else ret ())"

text \<open>The four \<^verbatim>\<open>except\<close> clauses of the loop, in their order.\<close>

definition message_handler_except :: "exn \<Rightarrow> unit prog" where
  "message_handler_except e =
     (if e = TimeoutError then logger Error NoNewFills
      else if e = ConnectionClosedError then pthen (logger Error ClosedReconnecting) reconnect
      else if e = JSONDecodeError then logger Error JsonDecodeFailed
      else logger Error (HandlerFailed e))"

definition message_handler_iteration :: "lib \<Rightarrow> int \<Rightarrow> int \<Rightarrow> unit prog" where
  "message_handler_iteration L grid_interval price_decimals =
     try_except
       (pbind connection_recv (\<lambda>response.
        pbind (json_decode L response) (\<lambda>message.
          route L grid_interval price_decimals message)))
       message_handler_except"

text \<open>The first \<open>n\<close> iterations of the \<^verbatim>\<open>while True\<close> loop, which never leaves by itself.\<close>

fun message_handler_loop :: "lib \<Rightarrow> int \<Rightarrow> int \<Rightarrow> nat \<Rightarrow> unit prog" where
  "message_handler_loop L grid_interval price_decimals 0 = ret ()"
| "message_handler_loop L grid_interval price_decimals (Suc n) =
     pthen (message_handler_iteration L grid_interval price_decimals)
           (message_handler_loop L grid_interval price_decimals n)"

definition message_handler :: "lib \<Rightarrow> rat \<Rightarrow> int \<Rightarrow> nat \<Rightarrow> unit prog" where
  "message_handler L grid_interval price_decimals n =
     message_handler_loop L (py_trunc grid_interval) price_decimals n"

section \<open>Observing a run\<close>

text \<open>
  The events a method adds to the trace, and among them those that are not log lines: what
  reached the transport, the file system and the clock.
\<close>

definition events_of :: "'a prog \<Rightarrow> state \<Rightarrow> event list" where
  "events_of m s = drop (length (trace s)) (trace (snd (m s)))"

fun is_log :: "event \<Rightarrow> bool" where
  "is_log (Logged lv m) = True"
| "is_log _ = False"

definition wire :: "event list \<Rightarrow> event list" where
  "wire evs = filter (\<lambda>ev. \<not> is_log ev) evs"

text \<open>A live connection: the client holds a handle and the handle is open.\<close>

definition live :: "state \<Rightarrow> bool" where
  "live s = (case connection s of None \<Rightarrow> False | Some h \<Rightarrow> \<not> is_closed h s)"

text \<open>
  The transport accepts every coming operation, and the handles known so far (the closed
  ones and the one the client holds) were issued before the next one to come.
\<close>

definition accepting :: "state \<Rightarrow> bool" where
  "accepting s = (list_all (\<lambda>r. r = None) (script s)
                  \<and> list_all (\<lambda>p. fst p < fresh s) (closed_handles s)
                  \<and> (case connection s of None \<Rightarrow> True | Some h \<Rightarrow> h < fresh s))"

text \<open>The frames that reach the transport, with the handle they are sent on.\<close>

fun sent_frames :: "event list \<Rightarrow> (handle \<times> json) list" where
  "sent_frames [] = []"
| "sent_frames (Sent h d # evs) = (h, d) # sent_frames evs"
| "sent_frames (ev # evs) = sent_frames evs"

text \<open>The calls of \<^verbatim>\<open>websockets.connect\<close> among the events, whatever their outcome.\<close>

fun is_connect :: "event \<Rightarrow> bool" where
  "is_connect (Connected h) = True"
| "is_connect (ConnectFailed e) = True"
| "is_connect _ = False"

text \<open>A method adds no log line announcing a reconnect.\<close>

definition no_reconnect :: "'a prog \<Rightarrow> bool" where
  "no_reconnect m =
     (\<forall>s. \<exists>evs. trace (snd (m s)) = trace s @ evs \<and> Logged Info ReconnectAttempt \<notin> set evs)"

section \<open>Sample inputs\<close>

text \<open>
  Concrete library functions, messages and states on which the model is evaluated: a
  decoder of unsigned decimal literals, a decoding table for three frames, and stand-ins
  for the encoding, the hash and the signature.
\<close>

fun digits_value :: "string \<Rightarrow> nat \<Rightarrow> nat option" where
  "digits_value [] acc = Some acc"
| "digits_value (c # cs) acc =
     (let n = of_char c :: nat
      in if 48 \<le> n \<and> n \<le> 57 then digits_value cs (10 * acc + (n - 48)) else None)"

definition sample_int :: "string \<Rightarrow> int option" where
  "sample_int s = (if s = [] then None else map_option int (digits_value s 0))"

definition sample_float :: "string \<Rightarrow> rat option" where
  "sample_float s =
     (let ip = takeWhile (\<lambda>c. c \<noteq> CHR ''.'') s; fp = drop (Suc (length ip)) s
      in if ip = [] then None
         else (case (digits_value ip 0, digits_value fp 0) of
                 (Some a, Some b) \<Rightarrow> Some (of_nat a + of_nat b / 10 ^ length fp)
               | _ \<Rightarrow> None))"

definition fill_message :: "string \<Rightarrow> string \<Rightarrow> json" where
  "fill_message side price =
     JObj [(''channel'', JStr ''fills''),
           (''data'', JObj [(''fill'',
              JObj [(''order_id'', JStr ''0xa1''), (''price'', JStr price),
                    (''filled'', JStr ''0.5''), (''side'', JStr side),
                    (''instrument_id'', JStr ''2054'')])])]"

definition ticker_message :: json where
  "ticker_message =
     JObj [(''channel'', JStr ''ticker:ETH-PERP''),
           (''data'', JObj [(''mark'', JStr ''3200.00'')])]"

definition orders_message :: json where
  "orders_message =
     JObj [(''channel'', JStr ''orders''),
           (''data'', JObj [(''orders'', JArr [JObj [(''order_id'', JStr ''0xa1'')]])])]"

definition sample_loads :: "string \<Rightarrow> json option" where
  "sample_loads text =
     (if text = ''fill'' then Some (fill_message ''buy'' ''3200.00'')
      else if text = ''ticker'' then Some ticker_message
      else if text = ''orders'' then Some orders_message
      else if text = ''ack'' then Some (JObj [(''id'', JInt 1), (''data'', JObj [(''success'', JBool True)])])
      else if text = ''nack'' then Some (JObj [(''id'', JInt 1), (''data'', JObj [(''success'', JBool False)])])
      else None)"

definition sample_lib :: lib where
  "sample_lib =
     \<lparr>json_loads = sample_loads,
      str_to_float = sample_float,
      str_to_int = sample_int,
      signable_bytes = (\<lambda>ord dom. Inr [nat (limitPrice ord mod 256), nat (amount ord mod 256),
                                         nat (salt ord mod 256), length (chainId dom)]),
      keccak = rev,
      sign_hash = (\<lambda>h key. Inr (key @ bytes_hex h))\<rparr>"

text \<open>The frame of \<^verbatim>\<open>cancel_all_orders\<close>.\<close>

definition cancel_all_frame :: json where
  "cancel_all_frame = JObj [(''op'', JStr ''cancel_all_orders''), (''data'', JObj [])]"

text \<open>A client with credentials; \<open>offline\<close> has no connection, \<open>online\<close> holds the open handle 0.\<close>

definition offline :: state where
  "offline =
     \<lparr>signing_key = ''5e'', wallet_address = ''0xw'', api_key = ''k'', api_secret = ''s'',
      env = Mainnet, connection = None, orders = [], tickers = [], latest_tickers = [],
      subscribed_channels = [],
      script = [], inbox = [], closed_handles = [], fresh = 0, salts = [7], clock = 1700000000,
      trace = []\<rparr>"

definition online :: state where
  "online = offline\<lparr>connection := Some 0, fresh := 1\<rparr>"

section \<open>Exceptions, reconnecting and the trace\<close>

lemma pbind_ok: "m s = (Inr v, s') \<Longrightarrow> pbind m k s = k v s'"
  by (simp add: pbind_def)
lemma pbind_err: "m s = (Inl e, s') \<Longrightarrow> pbind m k s = (Inl e, s')"
  by (simp add: pbind_def)
lemma pthen_ok: "m s = (Inr v, s') \<Longrightarrow> pthen m k s = k s'"
  by (simp add: pthen_def pbind_def)
lemma pthen_err: "m s = (Inl e, s') \<Longrightarrow> pthen m k s = (Inl e, s')"
  by (simp add: pthen_def pbind_def)
lemma try_ok: "m s = (Inr v, s') \<Longrightarrow> try_except m h s = (Inr v, s')"
  by (simp add: try_except_def)
lemma try_err: "m s = (Inl e, s') \<Longrightarrow> try_except m h s = h e s'"
  by (simp add: try_except_def)

lemma logger_apply: "logger lv m s = (Inr (), s\<lparr>trace := trace s @ [Logged lv m]\<rparr>)"
  by (simp add: logger_def emit_def)

lemma accepting_pop:
  "accepting s \<Longrightarrow> pop_outcome s = (None, s\<lparr>script := tl (script s)\<rparr>)"
  by (cases "script s") (simp_all add: accepting_def pop_outcome_def)

lemma open_connection_except_returns:
  "fst (open_connection_except e s) = Inr ()"
  by (simp add: open_connection_except_def pthen_def pbind_def logger_apply sleep_def)

lemma open_connection_returns: "fst (open_connection s) = Inr ()"
proof (cases "open_connection_try s")
  case (Pair r s')
  then show ?thesis
    by (cases r) (simp_all add: open_connection_def try_except_def open_connection_except_returns)
qed

lemma close_connection_returns: "fst (close_connection s) = Inr ()"
  by (auto simp: close_connection_def pthen_def pbind_def gets_def logger_apply try_finally_def
      try_except_def set_connection_def split: option.splits prod.splits sum.splits)

lemma reconnect_returns: "fst (reconnect s) = Inr ()"
proof -
  obtain s1 where s1: "close_connection (s\<lparr>trace := trace s @ [Logged Info ReconnectAttempt]\<rparr>) = (Inr (), s1)"
    using close_connection_returns [of "s\<lparr>trace := trace s @ [Logged Info ReconnectAttempt]\<rparr>"]
    by (metis prod.collapse)
  show ?thesis
    unfolding reconnect_def
    by (simp add: pthen_def pbind_def logger_apply s1 sleep_def try_except_def
        split: prod.splits sum.splits)
qed

lemma no_reconnectI:
  "(\<And>s. \<exists>evs. trace (snd (m s)) = trace s @ evs \<and> Logged Info ReconnectAttempt \<notin> set evs)
   \<Longrightarrow> no_reconnect m"
  by (simp add: no_reconnect_def)

lemma no_reconnectD:
  "no_reconnect m \<Longrightarrow>
   \<exists>evs. trace (snd (m s)) = trace s @ evs \<and> Logged Info ReconnectAttempt \<notin> set evs"
  by (simp add: no_reconnect_def)

lemma no_reconnect_pbind:
  assumes "no_reconnect m" and "\<And>v. no_reconnect (k v)"
  shows "no_reconnect (pbind m k)"
proof (rule no_reconnectI)
  fix s
  obtain r s1 where m: "m s = (r, s1)" by (cases "m s")
  from no_reconnectD [OF assms(1), of s] m obtain evs1
    where e1: "trace s1 = trace s @ evs1" "Logged Info ReconnectAttempt \<notin> set evs1" by auto
  show "\<exists>evs. trace (snd (pbind m k s)) = trace s @ evs \<and> Logged Info ReconnectAttempt \<notin> set evs"
  proof (cases r)
    case (Inl e)
    with m e1 show ?thesis by (simp add: pbind_def)
  next
    case (Inr v)
    from no_reconnectD [OF assms(2), of v s1] obtain evs2
      where "trace (snd (k v s1)) = trace s1 @ evs2" "Logged Info ReconnectAttempt \<notin> set evs2"
      by auto
    with Inr m e1 show ?thesis by (simp add: pbind_def)
  qed
qed

lemma no_reconnect_pthen:
  "no_reconnect m \<Longrightarrow> no_reconnect k \<Longrightarrow> no_reconnect (pthen m k)"
  by (simp add: pthen_def no_reconnect_pbind)

lemma no_reconnect_try_except:
  assumes "no_reconnect m" and "\<And>e. no_reconnect (h e)"
  shows "no_reconnect (try_except m h)"
proof (rule no_reconnectI)
  fix s
  obtain r s1 where m: "m s = (r, s1)" by (cases "m s")
  from no_reconnectD [OF assms(1), of s] m obtain evs1
    where e1: "trace s1 = trace s @ evs1" "Logged Info ReconnectAttempt \<notin> set evs1" by auto
  show "\<exists>evs. trace (snd (try_except m h s)) = trace s @ evs \<and> Logged Info ReconnectAttempt \<notin> set evs"
  proof (cases r)
    case (Inr v)
    with m e1 show ?thesis by (simp add: try_except_def)
  next
    case (Inl e)
    from no_reconnectD [OF assms(2), of e s1] obtain evs2
      where "trace (snd (h e s1)) = trace s1 @ evs2" "Logged Info ReconnectAttempt \<notin> set evs2"
      by auto
    with Inl m e1 show ?thesis by (simp add: try_except_def)
  qed
qed

lemma no_reconnect_try_finally:
  assumes "no_reconnect m" and "no_reconnect f"
  shows "no_reconnect (try_finally m f)"
proof (rule no_reconnectI)
  fix s
  obtain r s1 where m: "m s = (r, s1)" by (cases "m s")
  obtain r2 s2 where f: "f s1 = (r2, s2)" by (cases "f s1")
  from no_reconnectD [OF assms(1), of s] m obtain evs1
    where e1: "trace s1 = trace s @ evs1" "Logged Info ReconnectAttempt \<notin> set evs1" by auto
  from no_reconnectD [OF assms(2), of s1] f obtain evs2
    where e2: "trace s2 = trace s1 @ evs2" "Logged Info ReconnectAttempt \<notin> set evs2" by auto
  from m f e1 e2
  show "\<exists>evs. trace (snd (try_finally m f s)) = trace s @ evs \<and> Logged Info ReconnectAttempt \<notin> set evs"
    by (cases r2) (simp_all add: try_finally_def)
qed

lemma no_reconnect_silent [simp]:
  "no_reconnect (ret v)" "no_reconnect (raise e)" "no_reconnect (lift r)"
  "no_reconnect (set_connection c)" "no_reconnect (gets f)"
  by (simp_all add: no_reconnect_def ret_def raise_def lift_def set_connection_def gets_def)

lemma no_reconnect_logger [simp]:
  "m \<noteq> ReconnectAttempt \<Longrightarrow> no_reconnect (logger lv m)"
  by (simp add: no_reconnect_def logger_apply)

lemma no_reconnect_sleep [simp]: "no_reconnect (sleep n)"
  by (simp add: no_reconnect_def sleep_def)

lemma pop_outcome_trace [simp]: "trace (snd (pop_outcome s)) = trace s"
  by (simp add: pop_outcome_def split: list.splits)

lemma no_reconnect_ws_connect [simp]: "no_reconnect ws_connect"
  by (rule no_reconnectI)
    (auto simp: ws_connect_def pop_outcome_def split: list.splits option.splits)

lemma no_reconnect_conn_send [simp]: "no_reconnect (conn_send h d)"
  by (rule no_reconnectI)
    (auto simp: conn_send_def pop_outcome_def mark_closed_def split: list.splits option.splits)

lemma no_reconnect_conn_close [simp]: "no_reconnect (conn_close h)"
  by (rule no_reconnectI)
    (auto simp: conn_close_def pop_outcome_def mark_closed_def split: list.splits option.splits)

lemma no_reconnect_connection_send [simp]: "no_reconnect (connection_send d)"
proof (rule no_reconnectI)
  fix s
  show "\<exists>evs. trace (snd (connection_send d s)) = trace s @ evs
          \<and> Logged Info ReconnectAttempt \<notin> set evs"
    using no_reconnectD [OF no_reconnect_conn_send]
    by (cases "connection s") (simp_all add: connection_send_def)
qed

lemma no_reconnect_authenticate [simp]: "no_reconnect authenticate"
  unfolding authenticate_def
  by (intro no_reconnect_pthen no_reconnect_pbind) simp_all

lemma no_reconnect_open_connection [simp]: "no_reconnect open_connection"
  unfolding open_connection_def open_connection_try_def open_connection_except_def
  by (intro no_reconnect_try_except no_reconnect_pthen no_reconnect_pbind)
    (simp_all split: option.splits)

lemma no_reconnect_close_connection [simp]: "no_reconnect close_connection"
  unfolding close_connection_def
  by (intro no_reconnect_pbind no_reconnect_silent)
    (auto split: option.splits
      intro!: no_reconnect_pbind no_reconnect_pthen no_reconnect_try_finally no_reconnect_try_except)

lemma no_reconnect_resubscribe_loop [simp]: "no_reconnect (resubscribe_loop chs)"
  by (induction chs) (auto intro!: no_reconnect_pthen)

lemma no_reconnect_resubscribe_channels [simp]: "no_reconnect resubscribe_channels"
  unfolding resubscribe_channels_def by (intro no_reconnect_pbind) simp_all

lemma reconnect_trace:
  "\<exists>evs. trace (snd (reconnect s)) = trace s @ Logged Info ReconnectAttempt # evs
         \<and> Logged Info ReconnectAttempt \<notin> set evs"
proof -
  let ?rest = "pthen close_connection (pthen (sleep 5)
           (try_except (pthen open_connection resubscribe_channels)
                       (\<lambda>e. logger Error (ReconnectFailed e))))"
  have "no_reconnect ?rest"
    by (intro no_reconnect_pthen no_reconnect_try_except) simp_all
  from no_reconnectD [OF this, of "s\<lparr>trace := trace s @ [Logged Info ReconnectAttempt]\<rparr>"]
  show ?thesis
    by (auto simp: reconnect_def pthen_def pbind_def logger_apply)
qed

lemma reconnect_eq: "reconnect s = (Inr (), snd (reconnect s))"
  using reconnect_returns [of s] by (cases "reconnect s") simp

lemma send_cases:
  "send d s =
     (case connection s of
        None \<Rightarrow> (Inr (), snd (reconnect (snd (logger Error NotEstablished s))))
      | Some h \<Rightarrow>
          (case conn_send h d s of
             (Inr u, s1) \<Rightarrow> (Inr (), s1)
           | (Inl e, s1) \<Rightarrow>
               if e = ConnectionClosedError
               then connection_send d (snd (reconnect (snd (logger Debug Restarted s1))))
               else (Inr (), snd (reconnect s1))))"
proof (cases "connection s")
  case None
  obtain s2 where r: "reconnect (s\<lparr>trace := trace s @ [Logged Error NotEstablished]\<rparr>) = (Inr (), s2)"
    using reconnect_eq by blast
  with None show ?thesis
    by (simp add: send_def pbind_def pthen_def gets_def logger_apply)
next
  case (Some h)
  obtain r s1 where cs: "conn_send h d s = (r, s1)" by (cases "conn_send h d s")
  show ?thesis
  proof (cases r)
    case (Inr u)
    with Some cs show ?thesis
      by (simp add: send_def pbind_def gets_def try_except_def)
  next
    case (Inl e)
    show ?thesis
    proof (cases "e = ConnectionClosedError")
      case True
      obtain s2 where r: "reconnect (s1\<lparr>trace := trace s1 @ [Logged Debug Restarted]\<rparr>) = (Inr (), s2)"
        using reconnect_eq by blast
      with True Some cs Inl show ?thesis
        by (simp add: send_def pbind_def pthen_def gets_def try_except_def logger_apply)
    next
      case False
      obtain s2 where r: "reconnect s1 = (Inr (), s2)"
        using reconnect_eq by blast
      with False Some cs Inl show ?thesis
        by (simp add: send_def pbind_def gets_def try_except_def)
    qed
  qed
qed

lemma send_reconnect_count:
  "count_list (events_of (send d) s) (Logged Info ReconnectAttempt) =
     (case connection s of
        None \<Rightarrow> 1
      | Some h \<Rightarrow> (case fst (conn_send h d s) of Inr u \<Rightarrow> 0 | Inl e \<Rightarrow> 1))"
proof (cases "connection s")
  case None
  obtain evs where
    "trace (snd (reconnect (snd (logger Error NotEstablished s)))) =
       trace (snd (logger Error NotEstablished s)) @ Logged Info ReconnectAttempt # evs"
    "Logged Info ReconnectAttempt \<notin> set evs"
    using reconnect_trace by blast
  with None show ?thesis
    by (simp add: send_cases events_of_def logger_apply count_list_0_iff)
next
  case (Some h)
  obtain r s1 where cs: "conn_send h d s = (r, s1)" by (cases "conn_send h d s")
  obtain evs1 where e1: "trace s1 = trace s @ evs1" "Logged Info ReconnectAttempt \<notin> set evs1"
    using no_reconnectD [OF no_reconnect_conn_send, of h d s] cs by auto
  show ?thesis
  proof (cases r)
    case (Inr u)
    with Some cs e1 show ?thesis
      by (simp add: send_cases events_of_def count_list_0_iff)
  next
    case (Inl e)
    show ?thesis
    proof (cases "e = ConnectionClosedError")
      case True
      let ?s2 = "snd (logger Debug Restarted s1)"
      obtain evs2 where e2:
        "trace (snd (reconnect ?s2)) = trace ?s2 @ Logged Info ReconnectAttempt # evs2"
        "Logged Info ReconnectAttempt \<notin> set evs2"
        using reconnect_trace by blast
      obtain evs3 where e3:
        "trace (snd (connection_send d (snd (reconnect ?s2)))) = trace (snd (reconnect ?s2)) @ evs3"
        "Logged Info ReconnectAttempt \<notin> set evs3"
        using no_reconnectD [OF no_reconnect_connection_send] by blast
      from Some cs Inl True e1 e2 e3 show ?thesis
        by (simp add: send_cases events_of_def logger_apply count_list_0_iff)
    next
      case False
      obtain evs2 where e2:
        "trace (snd (reconnect s1)) = trace s1 @ Logged Info ReconnectAttempt # evs2"
        "Logged Info ReconnectAttempt \<notin> set evs2"
        using reconnect_trace by blast
      from Some cs Inl False e1 e2 show ?thesis
        by (simp add: send_cases events_of_def count_list_0_iff)
    qed
  qed
qed


section \<open>Sending a payload\<close>

text \<open>
  Claim C3, as the code has it. \<^verbatim>\<open>send\<close> behaves by cases. With no connection it logs an
  error, reconnects once and returns: the payload is not delivered. With a connection it
  hands the payload to the transport; if that succeeds nothing else happens; if it raises
  \<^verbatim>\<open>ConnectionClosedError\<close>, \<^verbatim>\<open>send\<close> reconnects once and makes one further attempt on whatever
  \<^verbatim>\<open>self.connection\<close> then is, whose outcome (an exception included) is the outcome of
  \<^verbatim>\<open>send\<close>; on any other exception it reconnects once and returns without a further
  attempt. The second part counts the reconnects of a call: one in each failing case, none
  otherwise.
\<close>

theorem send_policy:
  "send d s =
     (case connection s of
        None \<Rightarrow> (Inr (), snd (reconnect (snd (logger Error NotEstablished s))))
      | Some h \<Rightarrow>
          (case conn_send h d s of
             (Inr u, s1) \<Rightarrow> (Inr (), s1)
           | (Inl e, s1) \<Rightarrow>
               if e = ConnectionClosedError
               then connection_send d (snd (reconnect (snd (logger Debug Restarted s1))))
               else (Inr (), snd (reconnect s1))))
   \<and> count_list (events_of (send d) s) (Logged Info ReconnectAttempt) =
     (case connection s of
        None \<Rightarrow> 1
      | Some h \<Rightarrow> (case fst (conn_send h d s) of Inr u \<Rightarrow> 0 | Inl e \<Rightarrow> 1))"
  using send_cases [of d s] send_reconnect_count [of d s] by (rule conjI)

text \<open>
  Claim C3, as the specification states it, fails in its first part: a client without a
  connection that sends the cancel-all frame reconnects (the connection is live afterwards),
  and the only frame that reaches the transport is the authentication; the payload is never
  attempted.
\<close>

theorem send_offline_counterexample:
  "fst (send cancel_all_frame offline) = Inr ()
   \<and> live (snd (send cancel_all_frame offline))
   \<and> wire (trace (snd (send cancel_all_frame offline)))
       = [Slept 5, Connected 0, Sent 0 (auth_frame ''k'' ''s''), Slept 1]"
  by code_simp

section \<open>Fixed-point conversion of price and quantity\<close>










end
